theory Spec2Isabelle
  imports Main
begin

section \<open>Values exchanged with the host application\<close>

text \<open>
  A shallow embedding of \<^verbatim>\<open>src/main.ts\<close> (class \<^verbatim>\<open>PandocPlugin\<close>).
  A \<^verbatim>\<open>TFile\<close> is known by its vault-relative path. A thrown value is known by what
  \<^verbatim>\<open>e.toString()\<close> gives; \<open>NullLeaf\<close> is the \<^verbatim>\<open>TypeError\<close> of calling
  \<^verbatim>\<open>openFile\<close> on a null \<^verbatim>\<open>activeLeaf\<close>.
\<close>

datatype tfile = TFile (file_path: string)

datatype error = NullLeaf | Thrown string

fun toString :: "error \<Rightarrow> string" where
  "toString NullLeaf =
     ''TypeError: Cannot read properties of null (reading '' @ [CHR 0x27] @ ''openFile''
       @ [CHR 0x27] @ '')''"
| "toString (Thrown s) = s"

text \<open>The view of a workspace leaf: a markdown view of a file, or any other view.\<close>

datatype view = MarkdownView tfile | OtherView "tfile option"

text \<open>
  What the plugin does to the outside, oldest first: \<^verbatim>\<open>new Notice(text, duration)\<close>,
  \<^verbatim>\<open>console.log\<close>, \<^verbatim>\<open>console.error\<close>, a completed switch of the active leaf to a file,
  a completed \<^verbatim>\<open>fs.promises.writeFile\<close> and a completed \<^verbatim>\<open>fs.promises.appendFile\<close>.
\<close>

datatype event =
    Notice string "nat option"
  | ConsoleLog string
  | ConsoleError error
  | OpenedFile tfile
  | WroteFile string string
  | AppendedFile string string

record PandocPluginSettings =
  outputFolder :: "string option"
  pandoc :: "string option"
  pdflatex :: "string option"

text \<open>
  The mutable state: the plugin's \<^verbatim>\<open>settings\<close> and \<^verbatim>\<open>features\<close>, the workspace's
  \<^verbatim>\<open>activeLeaf\<close> (\<open>None\<close> is \<^verbatim>\<open>null\<close>), the files on disk and the effects so far.
\<close>

record world =
  settings :: PandocPluginSettings
  features :: "string \<rightharpoonup> string"
  activeLeaf :: "view option"
  disk :: "string \<rightharpoonup> string"
  trace :: "event list"

text \<open>
  The collaborators that \<^verbatim>\<open>main.ts\<close> only calls: the vault and its adapter, the leaf's
  \<^verbatim>\<open>openFile\<close>, the two renderers of \<^verbatim>\<open>./renderer\<close>, the file system's refusals,
  \<^verbatim>\<open>lookpath\<close>, and the constants of \<^verbatim>\<open>./pandoc\<close>. An \<open>error option\<close> is the value
  a call throws, if it throws. The event loop is the host's too: \<open>headerLandsAfter\<close> is
  the number of awaited steps of \<^verbatim>\<open>map-exportall\<close> that settle before the write of the
  header, which nobody awaits, reaches the file.
\<close>

record host =
  getMarkdownFiles :: "tfile list"
  isFileSystemAdapter :: bool
  getBasePath :: string
  getFullPath :: "string \<Rightarrow> string"
  openFile_throws :: "tfile \<Rightarrow> error option"
  render :: "view option \<Rightarrow> string \<Rightarrow> string \<Rightarrow> error + string"
  renderDiv :: "view option \<Rightarrow> string \<Rightarrow> string \<Rightarrow> error + string"
  writeFile_throws :: "string \<Rightarrow> string \<Rightarrow> error option"
  appendFile_throws :: "string \<Rightarrow> string \<Rightarrow> error option"
  lookpath :: "string \<Rightarrow> string option"
  inputExtensions :: "string list"
  needsPandoc :: "string \<Rightarrow> bool"
  needsLaTeX :: "string \<Rightarrow> bool"
  headerLandsAfter :: nat

section \<open>JavaScript values\<close>

text \<open>A \<^verbatim>\<open>string | null\<close> is truthy when it is a non-empty string.\<close>

fun truthy :: "string option \<Rightarrow> bool" where
  "truthy None = False"
| "truthy (Some s) = (s \<noteq> [])"

text \<open>\<^verbatim>\<open>a || b\<close> on such values.\<close>

definition js_or :: "string option \<Rightarrow> string option \<Rightarrow> string option" where
  "js_or a b = (if truthy a then a else b)"

text \<open>\<^verbatim>\<open>s.endsWith(t)\<close>.\<close>

definition endsWith :: "string \<Rightarrow> string \<Rightarrow> bool" where
  "endsWith s t = (length t \<le> length s \<and> drop (length s - length t) s = t)"

section \<open>The capability map\<close>

text \<open>
  \<^verbatim>\<open>createBinaryMap\<close>: each feature is the configured path, or else what \<^verbatim>\<open>lookpath\<close>
  finds; \<^verbatim>\<open>undefined\<close> is an absent entry.
\<close>

definition createBinaryMap :: "host \<Rightarrow> world \<Rightarrow> world" where
  "createBinaryMap h w =
     (let w1 = w\<lparr>features := (\<lambda>k. if k = ''pandoc''
                  then js_or (pandoc (settings w)) (lookpath h ''pandoc'')
                  else features w k)\<rparr>
      in w1\<lparr>features := (\<lambda>k. if k = ''pdflatex''
                  then js_or (pdflatex (settings w1)) (lookpath h ''pdflatex'')
                  else features w1 k)\<rparr>)"

section \<open>Eligibility of the current file\<close>

text \<open>\<^verbatim>\<open>workspace.getActiveFile()\<close>: the file the active leaf shows.\<close>

fun getActiveFile :: "world \<Rightarrow> tfile option" where
  "getActiveFile w =
     (case activeLeaf w of
        None \<Rightarrow> None
      | Some (MarkdownView f) \<Rightarrow> Some f
      | Some (OtherView fo) \<Rightarrow> fo)"

definition getCurrentFile :: "host \<Rightarrow> world \<Rightarrow> string option" where
  "getCurrentFile h w =
     (case getActiveFile w of
        None \<Rightarrow> None
      | Some fileData \<Rightarrow>
          if isFileSystemAdapter h then Some (getFullPath h (file_path fileData)) else None)"

text \<open>The loop over \<^verbatim>\<open>inputExtensions\<close>, returning at the first match.\<close>

fun endsWithAny :: "string \<Rightarrow> string list \<Rightarrow> bool" where
  "endsWithAny file [] = False"
| "endsWithAny file (ext # exts) = (if endsWith file ext then True else endsWithAny file exts)"

definition currentFileCanBeExported :: "host \<Rightarrow> world \<Rightarrow> string \<Rightarrow> bool" where
  "currentFileCanBeExported h w format =
     (if needsPandoc h format \<and> \<not> truthy (features w ''pandoc'') then False
      else if needsLaTeX h format \<and> \<not> truthy (features w ''pdflatex'') then False
      else (let file = getCurrentFile h w in
            if \<not> truthy file then False
            else endsWithAny (the file) (inputExtensions h)))"

section \<open>Paths\<close>

text \<open>
  Node's \<^verbatim>\<open>path.basename\<close> and \<^verbatim>\<open>path.join\<close>, in their POSIX variant (the separator is
  \<^verbatim>\<open>/\<close> alone; a backslash is an ordinary character of a name). \<^verbatim>\<open>basename\<close> drops
  trailing separators and keeps what follows the last remaining one. \<^verbatim>\<open>join\<close> puts a
  separator between its non-empty arguments and normalises: empty and \<^verbatim>\<open>.\<close> segments
  go, a \<^verbatim>\<open>..\<close> segment removes the segment before it.
\<close>

definition slash :: char where
  "slash = CHR ''/''"

definition backslash :: char where
  "backslash = CHR 0x5C"

definition basename :: "string \<Rightarrow> string" where
  "basename p = rev (takeWhile (\<lambda>c. c \<noteq> slash) (dropWhile (\<lambda>c. c = slash) (rev p)))"

fun segments :: "string \<Rightarrow> string list" where
  "segments [] = [[]]"
| "segments (c # cs) =
     (if c = slash then [] # segments cs
      else (case segments cs of [] \<Rightarrow> [[c]] | s # ss \<Rightarrow> (c # s) # ss))"

fun join_slash :: "string list \<Rightarrow> string" where
  "join_slash [] = []"
| "join_slash [s] = s"
| "join_slash (s # t # ts) = s @ slash # join_slash (t # ts)"

text \<open>\<^verbatim>\<open>normalizeString\<close>: the segments kept so far are \<open>res\<close>.\<close>

fun normalizeString :: "bool \<Rightarrow> string list \<Rightarrow> string list \<Rightarrow> string list" where
  "normalizeString allowAboveRoot res [] = res"
| "normalizeString allowAboveRoot res (seg # segs) =
     (if seg = [] \<or> seg = ''.'' then normalizeString allowAboveRoot res segs
      else if seg = ''..'' then
        (if res \<noteq> [] \<and> last res \<noteq> ''..'' then normalizeString allowAboveRoot (butlast res) segs
         else if allowAboveRoot then normalizeString allowAboveRoot (res @ [''..'']) segs
         else normalizeString allowAboveRoot res segs)
      else normalizeString allowAboveRoot (res @ [seg]) segs)"

definition normalize :: "string \<Rightarrow> string" where
  "normalize p =
     (if p = [] then ''.''
      else
        (let isAbsolute = (hd p = slash);
             trailingSeparator = (last p = slash);
             q = join_slash (normalizeString (\<not> isAbsolute) [] (segments p))
         in if q = [] then (if isAbsolute then ''/'' else if trailingSeparator then ''./'' else ''.'')
            else (let q' = (if trailingSeparator then q @ [slash] else q)
                  in if isAbsolute then slash # q' else q')))"

definition path_join :: "string \<Rightarrow> string \<Rightarrow> string" where
  "path_join a b =
     (if a = [] \<and> b = [] then ''.''
      else if a = [] then normalize b
      else if b = [] then normalize a
      else normalize (a @ slash # b))"

text \<open>
  Modelled from the spec: \<^verbatim>\<open>replaceFileExtension\<close> of \<^verbatim>\<open>./global\<close>, which is not among the
  sources. The spec has \<^verbatim>\<open>name.ext\<close> become \<^verbatim>\<open>name.<target-extension>\<close>: what follows the
  last dot is replaced, and a name without a dot gets the extension added.
\<close>

definition replaceFileExtension :: "string \<Rightarrow> string \<Rightarrow> string" where
  "replaceFileExtension file ext =
     (if CHR ''.'' \<in> set file
      then rev (tl (dropWhile (\<lambda>c. c \<noteq> CHR ''.'') (rev file))) @ ''.'' @ ext
      else file @ ''.'' @ ext)"

section \<open>Effects\<close>

definition emit :: "event \<Rightarrow> world \<Rightarrow> world" where
  "emit e w = w\<lparr>trace := trace w @ [e]\<rparr>"

text \<open>
  An awaited call gives the value it throws, if any, and the world it leaves.
  \<^verbatim>\<open>activeLeaf.openFile(file)\<close> throws on a null leaf; otherwise the host decides.
\<close>

definition openFile :: "host \<Rightarrow> tfile \<Rightarrow> world \<Rightarrow> error option \<times> world" where
  "openFile h file w =
     (case activeLeaf w of
        None \<Rightarrow> (Some NullLeaf, w)
      | Some leaf \<Rightarrow>
          (case openFile_throws h file of
             Some e \<Rightarrow> (Some e, w)
           | None \<Rightarrow> (None, emit (OpenedFile file) (w\<lparr>activeLeaf := Some (MarkdownView file)\<rparr>))))"

definition getActiveViewOfType :: "world \<Rightarrow> view option" where
  "getActiveViewOfType w =
     (case activeLeaf w of
        Some (MarkdownView f) \<Rightarrow> Some (MarkdownView f)
      | Some (OtherView fo) \<Rightarrow> None
      | None \<Rightarrow> None)"

definition writeFile :: "host \<Rightarrow> string \<Rightarrow> string \<Rightarrow> world \<Rightarrow> error option \<times> world" where
  "writeFile h file data w =
     (case writeFile_throws h file data of
        Some e \<Rightarrow> (Some e, w)
      | None \<Rightarrow> (None, emit (WroteFile file data) (w\<lparr>disk := (disk w)(file \<mapsto> data)\<rparr>)))"

definition appendFile :: "host \<Rightarrow> string \<Rightarrow> string \<Rightarrow> world \<Rightarrow> error option \<times> world" where
  "appendFile h file data w =
     (case appendFile_throws h file data of
        Some e \<Rightarrow> (Some e, w)
      | None \<Rightarrow>
          (None, emit (AppendedFile file data)
             (w\<lparr>disk := (disk w)(file \<mapsto> (case disk w file of None \<Rightarrow> data | Some old \<Rightarrow> old @ data))\<rparr>)))"

section \<open>One export job\<close>

text \<open>The output path of \<^verbatim>\<open>startHtmlExport\<close> (its lines 160 to 168).\<close>

definition htmlOutputFile :: "PandocPluginSettings \<Rightarrow> string \<Rightarrow> string" where
  "htmlOutputFile st inputFile =
     (let extension = ''html'';
          htmlContentFolder = ''html'';
          outputFile = replaceFileExtension inputFile extension
      in case outputFolder st of
           None \<Rightarrow> path_join htmlContentFolder (basename outputFile)
         | Some folder \<Rightarrow>
             if folder \<noteq> []
             then path_join (folder @ backslash # htmlContentFolder) (basename outputFile)
             else path_join htmlContentFolder (basename outputFile))"

text \<open>The \<^verbatim>\<open>catch\<close> block of both exports.\<close>

definition exportFailed :: "error \<Rightarrow> world \<Rightarrow> world" where
  "exportFailed e w =
     emit (ConsoleError e) (emit (Notice (''Pandoc export failed: '' @ toString e) (Some 15000)) w)"

definition startHtmlExport :: "host \<Rightarrow> tfile \<Rightarrow> string \<Rightarrow> string \<Rightarrow> world \<Rightarrow> error option \<times> world" where
  "startHtmlExport h file inputFile shortName w =
     (let w1 = emit (Notice (''Exporting '' @ inputFile @ '' to '' @ shortName) None) w;
          w2 = emit (ConsoleLog (''exporting: '' @ inputFile)) w1;
          format = ''html'';
          outputFile = htmlOutputFile (settings w2) inputFile
      in case openFile h file w2 of
           (Some e, w3) \<Rightarrow> (Some e, w3)
         | (None, w3) \<Rightarrow>
             (let view = getActiveViewOfType w3
              in case render h view inputFile format of
                   Inl e \<Rightarrow> (None, exportFailed e w3)
                 | Inr html \<Rightarrow>
                     (case writeFile h outputFile html w3 of
                        (Some e, w4) \<Rightarrow> (None, exportFailed e w4)
                      | (None, w4) \<Rightarrow>
                          (None,
                           emit (Notice (''Successfully exported via Pandoc to '' @ outputFile) None)
                             (emit (ConsoleLog (''Successfully exported: '' @ inputFile)) w4)))))"

definition startMapExport :: "host \<Rightarrow> tfile \<Rightarrow> string \<Rightarrow> string \<Rightarrow> world \<Rightarrow> error option \<times> world" where
  "startMapExport h obsidianFile inputFile outputFile w =
     (let w1 = emit (Notice (''Exporting '' @ inputFile @ '' to map'') None) w;
          w2 = emit (ConsoleLog (''Map exporting: '' @ inputFile)) w1;
          format = ''html''
      in case openFile h obsidianFile w2 of
           (Some e, w3) \<Rightarrow> (Some e, w3)
         | (None, w3) \<Rightarrow>
             (let view = getActiveViewOfType w3
              in case renderDiv h view inputFile format of
                   Inl e \<Rightarrow> (None, exportFailed e w3)
                 | Inr html \<Rightarrow>
                     (case appendFile h outputFile html w3 of
                        (Some e, w4) \<Rightarrow> (None, exportFailed e w4)
                      | (None, w4) \<Rightarrow>
                          (None,
                           emit (Notice (''Successfully exported via Pandoc to '' @ outputFile) None)
                             (emit (ConsoleLog (''Successfully Map exported: '' @ inputFile)) w4)))))"

section \<open>The two commands\<close>

text \<open>A job is a closure over one file; run on a world it fulfils or rejects.\<close>

type_synonym job = "world \<Rightarrow> error option \<times> world"

text \<open>The decimal digits of \<^verbatim>\<open>exportJobs.length\<close> in the log line.\<close>

fun string_of_nat :: "nat \<Rightarrow> string" where
  "string_of_nat n =
     (if n < 10 then [char_of (48 + n)]
      else string_of_nat (n div 10) @ [char_of (48 + n mod 10)])"

text \<open>The loop that builds \<^verbatim>\<open>exportJobs\<close> of the command \<^verbatim>\<open>html-exportall\<close>.\<close>

fun htmlAddJobs :: "host \<Rightarrow> tfile list \<Rightarrow> job list \<times> world \<Rightarrow> job list \<times> world" where
  "htmlAddJobs h [] (exportJobs, w) = (exportJobs, w)"
| "htmlAddJobs h (file # files) (exportJobs, w) =
     (let fullPath = getFullPath h (file_path file);
          job = (\<lambda>w'. startHtmlExport h file fullPath ''html'' w')
      in htmlAddJobs h files
           (exportJobs @ [job], emit (ConsoleLog (''added job to export '' @ fullPath)) w))"

text \<open>\<^verbatim>\<open>executeJobs\<close>: each job is awaited before the next; a rejection ends the loop.\<close>

fun executeJobs :: "job list \<Rightarrow> world \<Rightarrow> error option \<times> world" where
  "executeJobs [] w = (None, w)"
| "executeJobs (job # jobs) w =
     (case job w of
        (Some e, w') \<Rightarrow> (Some e, w')
      | (None, w') \<Rightarrow> executeJobs jobs w')"

text \<open>
  A check callback gives its boolean, the value the promise of \<^verbatim>\<open>executeJobs()\<close> rejects
  with (nobody awaits it) and the world once that promise has settled.
\<close>

definition htmlExportAllCheck :: "host \<Rightarrow> bool \<Rightarrow> world \<Rightarrow> bool \<times> error option \<times> world" where
  "htmlExportAllCheck h checking w =
     (case activeLeaf w of
        None \<Rightarrow> (False, None, w)
      | Some leaf \<Rightarrow>
          (let files = getMarkdownFiles h
           in if \<not> checking then
                (case htmlAddJobs h files ([], w) of
                   (exportJobs, w1) \<Rightarrow>
                     (let w2 = emit (ConsoleLog (''total number of jobs: ''
                                 @ string_of_nat (length exportJobs))) w1
                      in case executeJobs exportJobs w2 of (r, w3) \<Rightarrow> (True, r, w3)))
              else (True, None, w)))"

definition fileName :: string where
  "fileName = ''map.html''"

text \<open>The destination of the map (lines 76 to 82).\<close>

definition mapOutputFile :: "host \<Rightarrow> PandocPluginSettings \<Rightarrow> string" where
  "mapOutputFile h st =
     (case outputFolder st of
        None \<Rightarrow> ''adapter.getBasePath()'' @ backslash # fileName
      | Some folder \<Rightarrow>
          if folder \<noteq> [] then folder @ backslash # fileName
          else ''adapter.getBasePath()'' @ backslash # fileName)"

definition newline :: char where
  "newline = CHR 0x0A"

definition mapHeader :: string where
  "mapHeader =
     ''<!doctype html>'' @ [newline] @
     ''<html>'' @ [newline] @
     ''    <head>'' @ [newline] @
     ''        <title>Map export</title>'' @ [newline] @
     ''        <meta charset='' @ [CHR 0x27] @ ''utf-8'' @ [CHR 0x27] @ ''/>'' @ [newline] @
     ''        <style>'' @ [newline] @ ''</style>'' @ [newline] @
     ''    </head>'' @ [newline] @
     ''    <body>'' @ [newline]"

definition footer :: string where
  "footer = ''</body>'' @ [newline] @ ''</html>''"

fun mapAddJobs :: "host \<Rightarrow> string \<Rightarrow> tfile list \<Rightarrow> job list \<times> world \<Rightarrow> job list \<times> world" where
  "mapAddJobs h outputFile [] (exportJobs, w) = (exportJobs, w)"
| "mapAddJobs h outputFile (file # files) (exportJobs, w) =
     (let fullPath = getFullPath h (file_path file);
          job = (\<lambda>w'. startMapExport h file fullPath outputFile w')
      in mapAddJobs h outputFile files
           (exportJobs @ [job], emit (ConsoleLog (''added job to export '' @ fullPath)) w))"

text \<open>
  A call that nobody awaits runs beside the awaited steps: it reaches the file, in one
  piece, once \<open>n\<close> of the steps have settled, or once the steps have ended if they are
  fewer or one of them rejects earlier. What the call throws is dropped.
\<close>

definition unawaited :: "job \<Rightarrow> nat \<Rightarrow> job list \<Rightarrow> world \<Rightarrow> error option \<times> world" where
  "unawaited call n steps w =
     (case executeJobs (take n steps) w of
        (Some e, w') \<Rightarrow> (Some e, snd (call w'))
      | (None, w') \<Rightarrow> executeJobs (drop n steps) (snd (call w')))"

text \<open>The append of the footer, the last awaited step of \<^verbatim>\<open>executeJobs\<close> of the map.\<close>

definition appendFooter :: "host \<Rightarrow> string \<Rightarrow> job" where
  "appendFooter h outputFile = appendFile h outputFile footer"

text \<open>
  The command \<^verbatim>\<open>map-exportall\<close>. The header is written by \<^verbatim>\<open>fs.promises.writeFile\<close>
  without \<^verbatim>\<open>await\<close> (line 94), so it races with the awaited steps that follow: the jobs
  in turn and then the append of the footer. When only checking, nothing follows and the
  write is the whole effect.
\<close>

definition mapExportAllCheck :: "host \<Rightarrow> bool \<Rightarrow> world \<Rightarrow> bool \<times> error option \<times> world" where
  "mapExportAllCheck h checking w =
     (case activeLeaf w of
        None \<Rightarrow> (False, None, w)
      | Some leaf \<Rightarrow>
          (let outputFile = mapOutputFile h (settings w);
               writeHeader = writeFile h outputFile mapHeader;
               files = getMarkdownFiles h
           in if \<not> checking then
                (case mapAddJobs h outputFile files ([], w) of
                   (exportJobs, w2) \<Rightarrow>
                     (let w3 = emit (ConsoleLog (''total number of jobs: ''
                                 @ string_of_nat (length exportJobs))) w2
                      in case unawaited writeHeader (headerLandsAfter h)
                                (exportJobs @ [appendFooter h outputFile]) w3 of
                           (r, w4) \<Rightarrow> (True, r, w4)))
              else (True, None, snd (writeHeader w))))"

section \<open>What a batch is expected to leave behind\<close>

text \<open>
  The descriptions below are what the theorems compare the commands with. The closure
  that the loop of \<^verbatim>\<open>html-exportall\<close> builds for a file, and the one of
  \<^verbatim>\<open>map-exportall\<close>:
\<close>

definition htmlJob :: "host \<Rightarrow> tfile \<Rightarrow> job" where
  "htmlJob h f = startHtmlExport h f (getFullPath h (file_path f)) ''html''"

definition mapJob :: "host \<Rightarrow> string \<Rightarrow> tfile \<Rightarrow> job" where
  "mapJob h outputFile f = startMapExport h f (getFullPath h (file_path f)) outputFile"

definition addedJob :: "host \<Rightarrow> tfile \<Rightarrow> event" where
  "addedJob h f = ConsoleLog (''added job to export '' @ getFullPath h (file_path f))"

definition totalJobs :: "nat \<Rightarrow> event" where
  "totalJobs n = ConsoleLog (''total number of jobs: '' @ string_of_nat n)"

text \<open>The notifications of one HTML job: the first one, and the one for its outcome.\<close>

definition exportingNotice :: "host \<Rightarrow> tfile \<Rightarrow> event" where
  "exportingNotice h f = Notice (''Exporting '' @ getFullPath h (file_path f) @ '' to html'') None"

definition failureNotice :: "error \<Rightarrow> event" where
  "failureNotice e = Notice (''Pandoc export failed: '' @ toString e) (Some 15000)"

definition successNotice :: "string \<Rightarrow> event" where
  "successNotice outputFile = Notice (''Successfully exported via Pandoc to '' @ outputFile) None"

definition outcomeNotice :: "host \<Rightarrow> PandocPluginSettings \<Rightarrow> tfile \<Rightarrow> event" where
  "outcomeNotice h st f =
     (let inputFile = getFullPath h (file_path f);
          outputFile = htmlOutputFile st inputFile
      in case render h (Some (MarkdownView f)) inputFile ''html'' of
           Inl e \<Rightarrow> failureNotice e
         | Inr html \<Rightarrow>
             (case writeFile_throws h outputFile html of
                Some e \<Rightarrow> failureNotice e
              | None \<Rightarrow> successNotice outputFile))"

text \<open>
  Everything one HTML job does, in order: it announces itself, switches the leaf, and then
  either writes the file and reports success, or reports the failure.
\<close>

definition htmlJobEvents :: "host \<Rightarrow> PandocPluginSettings \<Rightarrow> tfile \<Rightarrow> event list" where
  "htmlJobEvents h st f =
     (let inputFile = getFullPath h (file_path f);
          outputFile = htmlOutputFile st inputFile
      in [exportingNotice h f, ConsoleLog (''exporting: '' @ inputFile)] @
         (case openFile_throws h f of
            Some e \<Rightarrow> []
          | None \<Rightarrow>
              OpenedFile f #
              (case render h (Some (MarkdownView f)) inputFile ''html'' of
                 Inl e \<Rightarrow> [failureNotice e, ConsoleError e]
               | Inr html \<Rightarrow>
                   (case writeFile_throws h outputFile html of
                      Some e \<Rightarrow> [failureNotice e, ConsoleError e]
                    | None \<Rightarrow>
                        [WroteFile outputFile html,
                         ConsoleLog (''Successfully exported: '' @ inputFile),
                         successNotice outputFile]))))"

text \<open>The files whose jobs begin: all up to and with the first whose switch throws.\<close>

fun started :: "host \<Rightarrow> tfile list \<Rightarrow> tfile list" where
  "started h [] = []"
| "started h (f # fs) = (if openFile_throws h f = None then f # started h fs else [f])"

fun firstRejection :: "host \<Rightarrow> tfile list \<Rightarrow> error option" where
  "firstRejection h [] = None"
| "firstRejection h (f # fs) =
     (case openFile_throws h f of Some e \<Rightarrow> Some e | None \<Rightarrow> firstRejection h fs)"

fun isNotice :: "event \<Rightarrow> bool" where
  "isNotice (Notice text duration) = True"
| "isNotice (ConsoleLog text) = False"
| "isNotice (ConsoleError e) = False"
| "isNotice (OpenedFile f) = False"
| "isNotice (WroteFile file data) = False"
| "isNotice (AppendedFile file data) = False"

definition notices :: "event list \<Rightarrow> event list" where
  "notices evs = filter isNotice evs"

text \<open>The fragment that \<^verbatim>\<open>renderDiv\<close> gives for a file shown in the active leaf.\<close>

definition fragment :: "host \<Rightarrow> tfile \<Rightarrow> string" where
  "fragment h f =
     (case renderDiv h (Some (MarkdownView f)) (getFullPath h (file_path f)) ''html'' of
        Inl e \<Rightarrow> []
      | Inr html \<Rightarrow> html)"

definition rendersDiv :: "host \<Rightarrow> tfile \<Rightarrow> bool" where
  "rendersDiv h f =
     (case renderDiv h (Some (MarkdownView f)) (getFullPath h (file_path f)) ''html'' of
        Inl e \<Rightarrow> False
      | Inr html \<Rightarrow> True)"

section \<open>A small vault\<close>

text \<open>Three notes under \<^verbatim>\<open>/vault\<close>, a renderer that wraps the path, and a willing host.\<close>

definition noteA :: tfile where "noteA = TFile ''a.md''"
definition noteB :: tfile where "noteB = TFile ''b.md''"
definition noteC :: tfile where "noteC = TFile ''c.md''"

definition demoHost :: host where
  "demoHost =
     \<lparr>getMarkdownFiles = [noteA, noteB, noteC],
      isFileSystemAdapter = True,
      getBasePath = ''/vault'',
      getFullPath = (\<lambda>p. ''/vault/'' @ p),
      openFile_throws = (\<lambda>f. None),
      render = (\<lambda>v p fmt. Inr (''<html>'' @ p @ ''</html>'')),
      renderDiv = (\<lambda>v p fmt. Inr (''<div>'' @ p @ ''</div>'')),
      writeFile_throws = (\<lambda>p d. None),
      appendFile_throws = (\<lambda>p d. None),
      lookpath = (\<lambda>name. None),
      inputExtensions = [''md'', ''docx''],
      needsPandoc = (\<lambda>fmt. fmt \<noteq> ''html''),
      needsLaTeX = (\<lambda>fmt. fmt = ''pdf''),
      headerLandsAfter = 0\<rparr>"

definition defaultSettings :: PandocPluginSettings where
  "defaultSettings = \<lparr>outputFolder = None, pandoc = None, pdflatex = None\<rparr>"

definition demoWorld :: world where
  "demoWorld =
     \<lparr>settings = defaultSettings,
      features = Map.empty,
      activeLeaf = Some (MarkdownView noteA),
      disk = Map.empty,
      trace = []\<rparr>"

text \<open>The same vault when the leaf cannot be switched to the second note.\<close>

definition stuckSecondHost :: host where
  "stuckSecondHost =
     demoHost\<lparr>openFile_throws := (\<lambda>f. if f = noteB then Some (Thrown ''Error: cannot open'')
                                          else None)\<rparr>"

text \<open>The same again when, besides, the renderer refuses the first note.\<close>

definition mixedHost :: host where
  "mixedHost =
     stuckSecondHost\<lparr>render := (\<lambda>v p fmt. if p = ''/vault/a.md'' then Inl (Thrown ''Error: bad note'')
                                             else Inr (''<html>'' @ p @ ''</html>''))\<rparr>"

text \<open>The willing host when the header reaches the file after the first awaited step.\<close>

definition lateHeaderHost :: host where
  "lateHeaderHost = demoHost\<lparr>headerLandsAfter := 1\<rparr>"

text \<open>The same vault when the leaf cannot be switched to the first note.\<close>

definition stuckLeafHost :: host where
  "stuckLeafHost =
     demoHost\<lparr>openFile_throws := (\<lambda>f. if f = noteA then Some (Thrown ''Error: cannot open'')
                                          else None)\<rparr>"

text \<open>A vault without notes.\<close>

definition emptyVaultHost :: host where
  "emptyVaultHost = demoHost\<lparr>getMarkdownFiles := []\<rparr>"

definition lateHeaderEmptyHost :: host where
  "lateHeaderEmptyHost = emptyVaultHost\<lparr>headerLandsAfter := 1\<rparr>"

text \<open>The demo world once pandoc has been found, with a stale map on disk, and the
  settings with an output folder.\<close>

definition pandocWorld :: world where
  "pandocWorld = demoWorld\<lparr>features := [''pandoc'' \<mapsto> ''/usr/bin/pandoc'']\<rparr>"

definition staleWorld :: world where
  "staleWorld = demoWorld\<lparr>disk := [mapOutputFile demoHost defaultSettings \<mapsto> ''stale'']\<rparr>"

definition outSettings :: PandocPluginSettings where
  "outSettings = defaultSettings\<lparr>outputFolder := Some ''/out''\<rparr>"

section \<open>Basic facts\<close>

declare string_of_nat.simps [simp del]

lemma string_of_nat_digit: "n < 10 \<Longrightarrow> string_of_nat n = [char_of (48 + n)]"
  by (simp add: string_of_nat.simps)

lemma emit_simps [simp]:
  "trace (emit e w) = trace w @ [e]"
  "settings (emit e w) = settings w"
  "activeLeaf (emit e w) = activeLeaf w"
  "disk (emit e w) = disk w"
  "features (emit e w) = features w"
  by (simp_all add: emit_def)

lemma endsWith_iff: "endsWith s t \<longleftrightarrow> (\<exists>pre. s = pre @ t)"
proof
  assume "endsWith s t"
  then have "s = take (length s - length t) s @ t"
    by (metis append_take_drop_id endsWith_def)
  then show "\<exists>pre. s = pre @ t" ..
next
  assume "\<exists>pre. s = pre @ t"
  then show "endsWith s t" by (auto simp: endsWith_def)
qed

lemma endsWithAny_iff: "endsWithAny file exts \<longleftrightarrow> (\<exists>ext \<in> set exts. endsWith file ext)"
  by (induction exts) auto

section \<open>Capability detection\<close>

text \<open>
  Claim C8. After \<^verbatim>\<open>createBinaryMap\<close>, each of the two features holds the configured path
  when that is set and non-empty, and otherwise what the PATH lookup gave; with no
  configured path and nothing found the feature is absent. The function is total: nothing
  is thrown.
\<close>

theorem createBinaryMap_resolves:
  "features (createBinaryMap h w) ''pandoc'' =
     (if truthy (pandoc (settings w)) then pandoc (settings w) else lookpath h ''pandoc'')
   \<and> features (createBinaryMap h w) ''pdflatex'' =
     (if truthy (pdflatex (settings w)) then pdflatex (settings w) else lookpath h ''pdflatex'')
   \<and> (\<not> truthy (pandoc (settings w)) \<and> lookpath h ''pandoc'' = None
        \<longrightarrow> features (createBinaryMap h w) ''pandoc'' = None)
   \<and> (\<not> truthy (pdflatex (settings w)) \<and> lookpath h ''pdflatex'' = None
        \<longrightarrow> features (createBinaryMap h w) ''pdflatex'' = None)"
  by (simp add: createBinaryMap_def js_or_def Let_def)

theorem createBinaryMap_resolves_witness:
  "\<not> truthy (pandoc (settings demoWorld)) \<and> lookpath demoHost ''pandoc'' = None
   \<and> \<not> truthy (pdflatex (settings demoWorld)) \<and> lookpath demoHost ''pdflatex'' = None
   \<and> features (createBinaryMap demoHost demoWorld) ''pandoc'' = None
   \<and> features (createBinaryMap demoHost demoWorld) ''pdflatex'' = None"
  using createBinaryMap_resolves [of demoHost demoWorld]
  by (simp add: demoHost_def demoWorld_def defaultSettings_def)

section \<open>Eligibility\<close>

text \<open>
  Claim C4. With extensions that are non-empty strings and a capability map whose entries
  are non-empty paths, \<^verbatim>\<open>currentFileCanBeExported\<close> is true exactly when every capability
  the format needs has an entry, there is a current file, and its path ends with one of
  the input extensions. In particular a needed capability that is missing gives false
  whatever the current file is, and a current file with no supported extension gives
  false for every format. The current file is the full path of the file of the active
  leaf, when the vault is on a file system adapter.
\<close>

theorem currentFileCanBeExported_iff:
  assumes "[] \<notin> set (inputExtensions h)"
    and "features w ''pandoc'' \<noteq> Some []"
    and "features w ''pdflatex'' \<noteq> Some []"
  shows "(currentFileCanBeExported h w format \<longleftrightarrow>
            (needsPandoc h format \<longrightarrow> features w ''pandoc'' \<noteq> None) \<and>
            (needsLaTeX h format \<longrightarrow> features w ''pdflatex'' \<noteq> None) \<and>
            (\<exists>file. getCurrentFile h w = Some file \<and>
               (\<exists>ext \<in> set (inputExtensions h). \<exists>pre. file = pre @ ext)))
       \<and> (needsPandoc h format \<and> features w ''pandoc'' = None
            \<longrightarrow> \<not> currentFileCanBeExported h w format)
       \<and> (needsLaTeX h format \<and> features w ''pdflatex'' = None
            \<longrightarrow> \<not> currentFileCanBeExported h w format)
       \<and> ((\<forall>file. getCurrentFile h w = Some file \<longrightarrow>
              (\<forall>ext \<in> set (inputExtensions h). \<not> (\<exists>pre. file = pre @ ext)))
            \<longrightarrow> \<not> currentFileCanBeExported h w format)
       \<and> (isFileSystemAdapter h \<longrightarrow>
            getCurrentFile h w = map_option (\<lambda>f. getFullPath h (file_path f)) (getActiveFile w))"
proof -
  have cur: "isFileSystemAdapter h \<longrightarrow>
            getCurrentFile h w = map_option (\<lambda>f. getFullPath h (file_path f)) (getActiveFile w)"
    by (simp add: getCurrentFile_def split: option.split)
  have p: "truthy (features w ''pandoc'') \<longleftrightarrow> features w ''pandoc'' \<noteq> None"
    using assms(2) by (cases "features w ''pandoc''") auto
  have l: "truthy (features w ''pdflatex'') \<longleftrightarrow> features w ''pdflatex'' \<noteq> None"
    using assms(3) by (cases "features w ''pdflatex''") auto
  have f: "truthy (getCurrentFile h w) \<and> endsWithAny (the (getCurrentFile h w)) (inputExtensions h)
       \<longleftrightarrow> (\<exists>file. getCurrentFile h w = Some file \<and>
               (\<exists>ext \<in> set (inputExtensions h). \<exists>pre. file = pre @ ext))"
  proof (cases "getCurrentFile h w")
    case None
    then show ?thesis by simp
  next
    case (Some p)
    have "endsWithAny p (inputExtensions h) \<Longrightarrow> p \<noteq> []"
      using assms(1) by (auto simp: endsWithAny_iff endsWith_iff)
    then show ?thesis
      using Some by (auto simp: endsWithAny_iff endsWith_iff)
  qed
  have code: "currentFileCanBeExported h w format \<longleftrightarrow>
            (needsPandoc h format \<longrightarrow> truthy (features w ''pandoc'')) \<and>
            (needsLaTeX h format \<longrightarrow> truthy (features w ''pdflatex'')) \<and>
            (truthy (getCurrentFile h w) \<and> endsWithAny (the (getCurrentFile h w)) (inputExtensions h))"
    by (auto simp: currentFileCanBeExported_def Let_def)
  have main: "currentFileCanBeExported h w format \<longleftrightarrow>
            (needsPandoc h format \<longrightarrow> features w ''pandoc'' \<noteq> None) \<and>
            (needsLaTeX h format \<longrightarrow> features w ''pdflatex'' \<noteq> None) \<and>
            (\<exists>file. getCurrentFile h w = Some file \<and>
               (\<exists>ext \<in> set (inputExtensions h). \<exists>pre. file = pre @ ext))"
    by (simp only: code p l f)
  show ?thesis
    using main cur by blast
qed


theorem currentFileCanBeExported_iff_witness:
  "[] \<notin> set (inputExtensions demoHost)
   \<and> features pandocWorld ''pandoc'' \<noteq> Some [] \<and> features pandocWorld ''pdflatex'' \<noteq> Some []
   \<and> needsPandoc demoHost ''docx'' \<and> features pandocWorld ''pandoc'' \<noteq> None
   \<and> getCurrentFile demoHost pandocWorld = Some ''/vault/a.md''
   \<and> currentFileCanBeExported demoHost pandocWorld ''docx''
   \<and> features demoWorld ''pandoc'' = None
   \<and> \<not> currentFileCanBeExported demoHost demoWorld ''docx''"
proof -
  have a: "[] \<notin> set (inputExtensions demoHost)" by (simp add: demoHost_def)
  have b: "features pandocWorld ''pandoc'' \<noteq> Some []" "features pandocWorld ''pdflatex'' \<noteq> Some []"
    by (simp_all add: pandocWorld_def demoWorld_def)
  have c: "features demoWorld ''pandoc'' \<noteq> Some []" "features demoWorld ''pdflatex'' \<noteq> Some []"
    by (simp_all add: demoWorld_def)
  have d: "getCurrentFile demoHost pandocWorld = Some ''/vault/a.md''"
    by (simp add: getCurrentFile_def pandocWorld_def demoWorld_def demoHost_def noteA_def)
  have e: "''/vault/a.md'' = ''/vault/a.'' @ ''md''" by simp
  have f: "needsPandoc demoHost ''docx''" "\<not> needsLaTeX demoHost ''docx''"
    "features pandocWorld ''pandoc'' \<noteq> None" "features demoWorld ''pandoc'' = None"
    "''md'' \<in> set (inputExtensions demoHost)"
    by (simp_all add: demoHost_def pandocWorld_def demoWorld_def)
  from currentFileCanBeExported_iff [OF a b, of "''docx''"] d e f
  have pos: "currentFileCanBeExported demoHost pandocWorld ''docx''" by blast
  from currentFileCanBeExported_iff [OF a c, of "''docx''"] f
  have neg: "\<not> currentFileCanBeExported demoHost demoWorld ''docx''" by blast
  show ?thesis using a b d f pos neg by simp
qed



section \<open>Availability of the commands\<close>

text \<open>
  Claim C10, as stated, fails: in a vault without notes both check callbacks still say
  true as soon as there is an active leaf.
\<close>

theorem checkCallback_true_without_documents:
  "fst (htmlExportAllCheck emptyVaultHost True demoWorld)
     \<noteq> (getMarkdownFiles emptyVaultHost \<noteq> [] \<and> activeLeaf demoWorld \<noteq> None)
   \<and> fst (mapExportAllCheck emptyVaultHost True demoWorld)
     \<noteq> (getMarkdownFiles emptyVaultHost \<noteq> [] \<and> activeLeaf demoWorld \<noteq> None)"
  by (simp add: htmlExportAllCheck_def mapExportAllCheck_def emptyVaultHost_def demoWorld_def)

text \<open>
  Claim C10, amended. For both commands, whether checking or not, the check callback
  returns true exactly when the workspace has an active leaf; the number of notes plays
  no part.
\<close>

theorem checkCallback_iff_activeLeaf:
  "fst (htmlExportAllCheck h checking w) = (activeLeaf w \<noteq> None)
   \<and> fst (mapExportAllCheck h checking w) = (activeLeaf w \<noteq> None)"
  by (simp add: htmlExportAllCheck_def mapExportAllCheck_def Let_def
      split: option.split prod.split)

section \<open>Destinations\<close>

lemma segments_no_slash: "slash \<notin> set s \<Longrightarrow> segments s = [s]"
  by (induction s) auto

lemma segments_append: "slash \<notin> set s \<Longrightarrow> segments (s @ slash # t) = s # segments t"
  by (induction s) auto

lemma takeWhile_upto: "c \<notin> set xs \<Longrightarrow> takeWhile (\<lambda>x. x \<noteq> c) (xs @ c # ys) = xs"
  by (induction xs) auto

lemma dropWhile_upto: "c \<notin> set xs \<Longrightarrow> dropWhile (\<lambda>x. x \<noteq> c) (xs @ c # ys) = c # ys"
  by (induction xs) auto

lemma basename_file:
  assumes "slash \<notin> set name" and "name \<noteq> []"
  shows "basename (dir @ slash # name) = name"
proof -
  have "rev name \<noteq> []" using assms(2) by simp
  then obtain c cs where r: "rev name = c # cs" by (cases "rev name") auto
  have ns: "slash \<notin> set (rev name)" using assms(1) by simp
  then have c: "c \<noteq> slash" using r by auto
  have "dropWhile (\<lambda>c. c = slash) (rev name @ slash # rev dir) = rev name @ slash # rev dir"
    using c r by simp
  moreover have "takeWhile (\<lambda>c. c \<noteq> slash) (rev name @ slash # rev dir) = rev name"
    using ns by (rule takeWhile_upto)
  ultimately show ?thesis by (simp add: basename_def)
qed

lemma replaceFileExtension_dot:
  assumes "CHR ''.'' \<notin> set ext"
  shows "replaceFileExtension (stem @ CHR ''.'' # ext) new = stem @ CHR ''.'' # new"
proof -
  have "CHR ''.'' \<notin> set (rev ext)" using assms by simp
  then have "dropWhile (\<lambda>c. c \<noteq> CHR ''.'') (rev ext @ CHR ''.'' # rev stem) = CHR ''.'' # rev stem"
    by (rule dropWhile_upto)
  then show ?thesis by (simp add: replaceFileExtension_def)
qed

lemma path_join_two:
  assumes "slash \<notin> set a" and "slash \<notin> set b" and "2 < length a" and "2 < length b"
  shows "path_join a b = a @ slash # b"
proof -
  have ne: "a \<noteq> []" "b \<noteq> []" "a \<noteq> ''.''" "a \<noteq> ''..''" "b \<noteq> ''.''" "b \<noteq> ''..''"
    using assms(3,4) by auto
  have hd: "hd (a @ slash # b) \<noteq> slash" using assms(1) ne(1) by (cases a) auto
  have "last b \<in> set b" using ne(2) by simp
  then have "last b \<noteq> slash" using assms(2) by metis
  then have lst: "last (a @ slash # b) \<noteq> slash" using ne(2) by simp
  have seg: "segments (a @ slash # b) = [a, b]"
    using assms(1,2) by (simp add: segments_append segments_no_slash)
  show ?thesis
    using ne hd lst by (simp add: path_join_def normalize_def seg Let_def)
qed

text \<open>
  The output path of a note \<^verbatim>\<open>dir/name.ext\<close>: under \<^verbatim>\<open>html/\<close> when no output folder is
  configured; otherwise the join of the folder glued to \<^verbatim>\<open>html\<close> by a backslash with the
  new name, which for a folder name without separator keeps the backslash as it is.
\<close>

lemma htmlOutputFile_note:
  assumes "slash \<notin> set name" and "CHR ''.'' \<notin> set ext"
  shows "htmlOutputFile st (dir @ slash # name @ CHR ''.'' # ext) =
           (case outputFolder st of
              None \<Rightarrow> ''html/'' @ name @ ''.html''
            | Some folder \<Rightarrow>
                if folder = [] then ''html/'' @ name @ ''.html''
                else path_join (folder @ backslash # ''html'') (name @ ''.html''))"
proof -
  have "replaceFileExtension ((dir @ slash # name) @ CHR ''.'' # ext) ''html''
             = (dir @ slash # name) @ CHR ''.'' # ''html''"
    using assms(2) by (rule replaceFileExtension_dot)
  then have r: "replaceFileExtension (dir @ slash # name @ CHR ''.'' # ext) ''html''
             = dir @ slash # (name @ ''.html'')" by simp
  have "slash \<notin> set (name @ ''.html'')" using assms(1) by (simp add: slash_def)
  then have b: "basename (dir @ slash # (name @ ''.html'')) = name @ ''.html''"
    by (rule basename_file) simp
  have "path_join ''html'' (name @ ''.html'') = ''html'' @ slash # (name @ ''.html'')"
    using assms(1) by (intro path_join_two) (simp_all add: slash_def)
  then have j: "path_join ''html'' (name @ ''.html'') = ''html/'' @ name @ ''.html''"
    by (simp add: slash_def)
  show ?thesis
    unfolding htmlOutputFile_def Let_def r b j by (simp split: option.split)
qed

lemma htmlOutputFile_plain_folder:
  assumes "slash \<notin> set name" and "CHR ''.'' \<notin> set ext"
    and "outputFolder st = Some folder" and "folder \<noteq> []" and "slash \<notin> set folder"
  shows "htmlOutputFile st (dir @ slash # name @ CHR ''.'' # ext) =
           folder @ backslash # ''html/'' @ name @ ''.html''"
proof -
  have "path_join (folder @ backslash # ''html'') (name @ ''.html'')
          = (folder @ backslash # ''html'') @ slash # (name @ ''.html'')"
    using assms(1,5) by (intro path_join_two) (simp_all add: slash_def backslash_def)
  then show ?thesis
    using htmlOutputFile_note [OF assms(1,2), of st dir] assms(3,4)
    by (simp add: slash_def)
qed

text \<open>
  Claim C6 at the input where it breaks. With no output folder configured and the vault at
  \<^verbatim>\<open>/vault\<close>, the destination of the map is the text \<^verbatim>\<open>adapter.getBasePath()\<close>, a backslash
  and \<^verbatim>\<open>map.html\<close>: the call is inside the template string without \<^verbatim>\<open>${ }\<close>, so the
  base path of the vault is not part of the destination. With the output folder
  \<^verbatim>\<open>/out\<close> the destination is that folder, a backslash and \<^verbatim>\<open>map.html\<close>.
\<close>

theorem mapOutputFile_unset_folder:
  "outputFolder defaultSettings = None
   \<and> getBasePath demoHost = ''/vault''
   \<and> mapOutputFile demoHost defaultSettings = ''adapter.getBasePath()'' @ [backslash] @ ''map.html''
   \<and> mapOutputFile demoHost outSettings = ''/out'' @ [backslash] @ ''map.html''"
  by (simp add: mapOutputFile_def defaultSettings_def outSettings_def demoHost_def fileName_def)

text \<open>
  Claim C7 at the input where it breaks. With the output folder \<^verbatim>\<open>/out\<close>, the note
  \<^verbatim>\<open>/vault/notes/a.md\<close> goes to \<^verbatim>\<open>/out\html/a.html\<close>: folder and subfolder are glued with
  a backslash, which is no separator for the POSIX \<^verbatim>\<open>path.join\<close>, so the file lands in
  a directory named \<^verbatim>\<open>out\html\<close> and not under \<^verbatim>\<open>/out/html/\<close>. With no output folder
  the same note goes to \<^verbatim>\<open>html/a.html\<close>, as the claim says.
\<close>

theorem htmlOutputFile_configured_folder:
  "htmlOutputFile outSettings ''/vault/notes/a.md'' = ''/out'' @ [backslash] @ ''html/a.html''
   \<and> htmlOutputFile defaultSettings ''/vault/notes/a.md'' = ''html/a.html''"
  by (simp add: htmlOutputFile_def outSettings_def defaultSettings_def replaceFileExtension_def
      basename_def path_join_def normalize_def slash_def backslash_def Let_def)

text \<open>
  Claim C9. When the check callback of \<^verbatim>\<open>map-exportall\<close> runs with \<^verbatim>\<open>checking\<close> true, an
  active leaf and a file system that accepts the write, it returns true having replaced
  the content of the destination by the header; the write is its only effect, and no job
  has been created or run.
\<close>

theorem mapExportAllCheck_checking_writes:
  assumes "activeLeaf w = Some leaf"
    and "writeFile_throws h (mapOutputFile h (settings w)) mapHeader = None"
  shows "mapExportAllCheck h True w =
           (True, None,
            w\<lparr>disk := (disk w)(mapOutputFile h (settings w) \<mapsto> mapHeader),
              trace := trace w @ [WroteFile (mapOutputFile h (settings w)) mapHeader]\<rparr>)"
  using assms by (simp add: mapExportAllCheck_def writeFile_def emit_def Let_def)

theorem mapExportAllCheck_checking_writes_witness:
  "activeLeaf staleWorld = Some (MarkdownView noteA)
   \<and> writeFile_throws demoHost (mapOutputFile demoHost (settings staleWorld)) mapHeader = None
   \<and> disk staleWorld (mapOutputFile demoHost defaultSettings) = Some ''stale''
   \<and> fst (mapExportAllCheck demoHost True staleWorld)
   \<and> disk (snd (snd (mapExportAllCheck demoHost True staleWorld)))
        (mapOutputFile demoHost defaultSettings) = Some mapHeader
   \<and> trace (snd (snd (mapExportAllCheck demoHost True staleWorld)))
        = [WroteFile (mapOutputFile demoHost defaultSettings) mapHeader]"
proof -
  have a: "activeLeaf staleWorld = Some (MarkdownView noteA)"
    by (simp add: staleWorld_def demoWorld_def)
  have b: "writeFile_throws demoHost (mapOutputFile demoHost (settings staleWorld)) mapHeader = None"
    by (simp add: demoHost_def)
  have c: "settings staleWorld = defaultSettings" "trace staleWorld = []"
    "disk staleWorld (mapOutputFile demoHost defaultSettings) = Some ''stale''"
    by (simp_all add: staleWorld_def demoWorld_def)
  show ?thesis
    using a b c mapExportAllCheck_checking_writes [OF a b] by simp
qed


section \<open>Jobs run one after another\<close>

lemma htmlJob_run:
  assumes "activeLeaf w = Some leaf"
  shows "fst (htmlJob h f w) = openFile_throws h f"
    and "trace (snd (htmlJob h f w)) = trace w @ htmlJobEvents h (settings w) f"
    and "settings (snd (htmlJob h f w)) = settings w"
    and "activeLeaf (snd (htmlJob h f w)) \<noteq> None"
  using assms
  by (auto simp: htmlJob_def startHtmlExport_def openFile_def getActiveViewOfType_def
      writeFile_def htmlJobEvents_def exportFailed_def exportingNotice_def failureNotice_def
      successNotice_def Let_def
      split: option.splits sum.splits)

lemma htmlAddJobs_eq:
  "htmlAddJobs h files (js, w) =
     (js @ map (htmlJob h) files, w\<lparr>trace := trace w @ map (addedJob h) files\<rparr>)"
  by (induction files arbitrary: js w) (simp_all add: Let_def htmlJob_def emit_def addedJob_def)

lemma executeJobs_html:
  assumes "activeLeaf w = Some leaf"
  shows "fst (executeJobs (map (htmlJob h) files) w) = firstRejection h files
       \<and> trace (snd (executeJobs (map (htmlJob h) files) w)) =
           trace w @ concat (map (htmlJobEvents h (settings w)) (started h files))"
  using assms
proof (induction files arbitrary: w leaf)
  case Nil
  then show ?case by simp
next
  case (Cons f fs)
  obtain r w' where run: "htmlJob h f w = (r, w')" by (cases "htmlJob h f w")
  from htmlJob_run [OF Cons.prems, of h f] run
  have r: "openFile_throws h f = r"
    and tr: "trace w' = trace w @ htmlJobEvents h (settings w) f"
    and st: "settings w' = settings w"
    and al: "activeLeaf w' \<noteq> None" by simp_all
  show ?case
  proof (cases r)
    case None
    from al obtain leaf' where "activeLeaf w' = Some leaf'" by auto
    from Cons.IH [OF this] have
      "fst (executeJobs (map (htmlJob h) fs) w') = firstRejection h fs"
      "trace (snd (executeJobs (map (htmlJob h) fs) w')) =
         trace w' @ concat (map (htmlJobEvents h (settings w')) (started h fs))" by simp_all
    then show ?thesis by (simp add: run None r tr st)
  next
    case (Some e)
    then show ?thesis by (simp add: run r tr)
  qed
qed

lemma htmlExportAllCheck_run:
  assumes "activeLeaf w = Some leaf"
  shows "fst (snd (htmlExportAllCheck h False w)) = firstRejection h (getMarkdownFiles h)"
    and "trace (snd (snd (htmlExportAllCheck h False w))) =
           trace w @ map (addedJob h) (getMarkdownFiles h)
             @ [totalJobs (length (getMarkdownFiles h))]
             @ concat (map (htmlJobEvents h (settings w)) (started h (getMarkdownFiles h)))"
proof -
  let ?fs = "getMarkdownFiles h"
  let ?w2 = "emit (totalJobs (length ?fs)) (w\<lparr>trace := trace w @ map (addedJob h) ?fs\<rparr>)"
  have eq: "htmlExportAllCheck h False w =
      (True, fst (executeJobs (map (htmlJob h) ?fs) ?w2), snd (executeJobs (map (htmlJob h) ?fs) ?w2))"
    using assms
    by (simp add: htmlExportAllCheck_def htmlAddJobs_eq Let_def totalJobs_def split: prod.split)
  have leaf: "activeLeaf ?w2 = Some leaf" using assms by simp
  from executeJobs_html [OF leaf, of h ?fs]
  show "fst (snd (htmlExportAllCheck h False w)) = firstRejection h ?fs"
    and "trace (snd (snd (htmlExportAllCheck h False w))) =
           trace w @ map (addedJob h) ?fs @ [totalJobs (length ?fs)]
             @ concat (map (htmlJobEvents h (settings w)) (started h ?fs))"
    by (simp_all add: eq)
qed

lemma started_prefix: "\<exists>rest. files = started h files @ rest"
  by (induction files) auto

lemma started_all: "\<forall>f \<in> set files. openFile_throws h f = None \<Longrightarrow> started h files = files"
  by (induction files) auto

lemma firstRejection_none:
  "\<forall>f \<in> set files. openFile_throws h f = None \<Longrightarrow> firstRejection h files = None"
  by (induction files) auto

lemma htmlJobEvents_shape:
  assumes "openFile_throws h f = None"
  shows "(\<exists>pre html. htmlJobEvents h st f =
            exportingNotice h f # pre @
              [WroteFile (htmlOutputFile st (getFullPath h (file_path f))) html,
               ConsoleLog (''Successfully exported: '' @ getFullPath h (file_path f)),
               successNotice (htmlOutputFile st (getFullPath h (file_path f)))])
       \<or> (\<exists>pre e. htmlJobEvents h st f = exportingNotice h f # pre @ [failureNotice e, ConsoleError e])"
  using assms
  by (auto simp: htmlJobEvents_def Let_def split: sum.splits option.splits)

lemma notices_htmlJobEvents:
  assumes "openFile_throws h f = None"
  shows "notices (htmlJobEvents h st f) = [exportingNotice h f, outcomeNotice h st f]"
  using assms
  by (auto simp: notices_def htmlJobEvents_def outcomeNotice_def exportingNotice_def
      failureNotice_def successNotice_def Let_def split: sum.splits option.splits)

lemma notices_append [simp]: "notices (xs @ ys) = notices xs @ notices ys"
  by (simp add: notices_def)

lemma notices_simps [simp]:
  "notices [] = []"
  "notices (map (addedJob h) files) = []"
  "notices [totalJobs n] = []"
  by (induction files) (simp_all add: notices_def addedJob_def totalJobs_def)

lemma notices_concat:
  "\<forall>f \<in> set files. openFile_throws h f = None \<Longrightarrow>
   notices (concat (map (htmlJobEvents h st) files)) =
     concat (map (\<lambda>f. [exportingNotice h f, outcomeNotice h st f]) files)"
  by (induction files) (simp_all add: notices_htmlJobEvents)

lemma notices_Cons [simp]:
  "notices (e # es) = (if isNotice e then e # notices es else notices es)"
  by (simp add: notices_def)

lemma isNotice_logs [simp]:
  "\<not> isNotice (totalJobs n)" "\<not> isNotice (addedJob h f)"
  by (simp_all add: totalJobs_def addedJob_def)

text \<open>
  When every switch of the leaf succeeds, what a renderer or a write throws stays in its
  job: the batch fulfils, and each note has its announcing notice and one notice for its
  outcome.
\<close>

lemma notices_when_switches_succeed:
  assumes "activeLeaf w = Some leaf"
    and "\<forall>f \<in> set (getMarkdownFiles h). openFile_throws h f = None"
  shows "fst (snd (htmlExportAllCheck h False w)) = None
       \<and> notices (trace (snd (snd (htmlExportAllCheck h False w)))) =
           notices (trace w)
             @ concat (map (\<lambda>f. [exportingNotice h f, outcomeNotice h (settings w) f])
                 (getMarkdownFiles h))
       \<and> length (notices (trace (snd (snd (htmlExportAllCheck h False w))))) =
           length (notices (trace w)) + 2 * length (getMarkdownFiles h)"
proof -
  have rej: "fst (snd (htmlExportAllCheck h False w)) = None"
    using htmlExportAllCheck_run(1) [OF assms(1), of h] firstRejection_none [OF assms(2)]
    by simp
  have nt: "notices (trace (snd (snd (htmlExportAllCheck h False w)))) =
           notices (trace w)
             @ concat (map (\<lambda>f. [exportingNotice h f, outcomeNotice h (settings w) f])
                 (getMarkdownFiles h))"
    using htmlExportAllCheck_run(2) [OF assms(1), of h] started_all [OF assms(2)]
      notices_concat [OF assms(2), of "settings w"]
    by simp
  have "length (concat (map (\<lambda>f. [exportingNotice h f, outcomeNotice h (settings w) f]) fs))
          = 2 * length fs" for fs
    by (induction fs) simp_all
  then show ?thesis using rej nt by simp
qed

section \<open>The map\<close>

lemma mapJob_ok:
  assumes "activeLeaf w = Some leaf"
    and "openFile_throws h f = None"
    and "rendersDiv h f"
    and "appendFile_throws h out (fragment h f) = None"
  shows "fst (mapJob h out f w) = None"
    and "disk (snd (mapJob h out f w)) out =
           Some (case disk w out of None \<Rightarrow> fragment h f | Some old \<Rightarrow> old @ fragment h f)"
    and "activeLeaf (snd (mapJob h out f w)) \<noteq> None"
  using assms
  by (auto simp: mapJob_def startMapExport_def openFile_def getActiveViewOfType_def
      appendFile_def rendersDiv_def fragment_def Let_def
      split: option.splits sum.splits)

lemma mapAddJobs_eq:
  "mapAddJobs h out files (js, w) =
     (js @ map (mapJob h out) files, w\<lparr>trace := trace w @ map (addedJob h) files\<rparr>)"
  by (induction files arbitrary: js w) (simp_all add: Let_def mapJob_def emit_def addedJob_def)

lemma executeJobs_map_ok:
  assumes "activeLeaf w = Some leaf"
    and "\<forall>f \<in> set files. openFile_throws h f = None \<and> rendersDiv h f
           \<and> appendFile_throws h out (fragment h f) = None"
    and "disk w out = Some content"
  shows "fst (executeJobs (map (mapJob h out) files) w) = None
       \<and> disk (snd (executeJobs (map (mapJob h out) files) w)) out =
           Some (content @ concat (map (fragment h) files))"
  using assms
proof (induction files arbitrary: w leaf content)
  case Nil
  then show ?case by simp
next
  case (Cons f fs)
  obtain r w' where run: "mapJob h out f w = (r, w')" by (cases "mapJob h out f w")
  from Cons.prems(2) have ok: "openFile_throws h f = None" "rendersDiv h f"
    "appendFile_throws h out (fragment h f) = None" by simp_all
  from mapJob_ok [OF Cons.prems(1) ok, of ] run Cons.prems(3)
  have r: "r = None"
    and dk: "disk w' out = Some (content @ fragment h f)"
    and al: "activeLeaf w' \<noteq> None" by simp_all
  from al obtain leaf' where leaf': "activeLeaf w' = Some leaf'" by auto
  from Cons.prems(2) have rest: "\<forall>f \<in> set fs. openFile_throws h f = None \<and> rendersDiv h f
           \<and> appendFile_throws h out (fragment h f) = None" by simp
  from Cons.IH [OF leaf' rest dk] show ?case by (simp add: run r)
qed

lemma executeJobs_append:
  "executeJobs (xs @ ys) w =
     (case executeJobs xs w of
        (Some e, w') \<Rightarrow> (Some e, w')
      | (None, w') \<Rightarrow> executeJobs ys w')"
  by (induction xs arbitrary: w) (auto split: prod.split option.split)

lemma executeJobs_single: "executeJobs [j] w = j w"
  by (simp split: prod.split option.split)

text \<open>
  The steps of the map are the loop over the jobs and then the append of the footer; a
  header that is first is written before all of them.
\<close>

lemma executeJobs_then_footer:
  "executeJobs (jobs @ [appendFooter h out]) w =
     (case executeJobs jobs w of
        (Some e, w') \<Rightarrow> (Some e, w')
      | (None, w') \<Rightarrow> appendFile h out footer w')"
  by (cases "executeJobs jobs w")
    (simp add: executeJobs_append executeJobs_single appendFooter_def del: executeJobs.simps
      split: option.split)

lemma unawaited_first: "unawaited call 0 steps w = executeJobs steps (snd (call w))"
  by (simp add: unawaited_def)

lemma executeJobs_map_fulfils:
  assumes "activeLeaf w = Some leaf"
    and "\<forall>f \<in> set files. openFile_throws h f = None \<and> rendersDiv h f
           \<and> appendFile_throws h out (fragment h f) = None"
  shows "fst (executeJobs (map (mapJob h out) files) w) = None
       \<and> activeLeaf (snd (executeJobs (map (mapJob h out) files) w)) \<noteq> None"
  using assms
proof (induction files arbitrary: w leaf)
  case Nil
  then show ?case by simp
next
  case (Cons f fs)
  obtain r w' where run: "mapJob h out f w = (r, w')" by (cases "mapJob h out f w")
  from Cons.prems(2) have ok: "openFile_throws h f = None" "rendersDiv h f"
    "appendFile_throws h out (fragment h f) = None" by simp_all
  from mapJob_ok(1,3) [OF Cons.prems(1) ok] run
  have r: "r = None" and al: "activeLeaf w' \<noteq> None" by simp_all
  from al obtain leaf' where leaf': "activeLeaf w' = Some leaf'" by auto
  from Cons.prems(2) have rest: "\<forall>f \<in> set fs. openFile_throws h f = None \<and> rendersDiv h f
           \<and> appendFile_throws h out (fragment h f) = None" by simp
  from Cons.IH [OF leaf' rest] show ?case by (simp add: run r)
qed

text \<open>
  What a run of \<^verbatim>\<open>map-exportall\<close> leaves in the destination when every call succeeds:
  the header, the fragments of the notes whose jobs ran after the header reached the
  file, and the footer; the header alone when it reached the file last. Only when the
  header is first does the file hold every fragment.
\<close>

lemma map_exportall_disk:
  assumes leaf: "activeLeaf w = Some leaf"
    and hdr: "writeFile_throws h (mapOutputFile h (settings w)) mapHeader = None"
    and jobs: "\<forall>f \<in> set (getMarkdownFiles h). openFile_throws h f = None \<and> rendersDiv h f
           \<and> appendFile_throws h (mapOutputFile h (settings w)) (fragment h f) = None"
    and ftr: "appendFile_throws h (mapOutputFile h (settings w)) footer = None"
  shows "fst (snd (mapExportAllCheck h False w)) = None
       \<and> disk (snd (snd (mapExportAllCheck h False w))) (mapOutputFile h (settings w)) =
           Some (if headerLandsAfter h \<le> length (getMarkdownFiles h)
                 then mapHeader
                        @ concat (map (fragment h) (drop (headerLandsAfter h) (getMarkdownFiles h)))
                        @ footer
                 else mapHeader)"
proof -
  let ?out = "mapOutputFile h (settings w)"
  let ?fs = "getMarkdownFiles h"
  let ?k = "headerLandsAfter h"
  let ?w3 = "emit (totalJobs (length ?fs)) (w\<lparr>trace := trace w @ map (addedJob h) ?fs\<rparr>)"
  let ?steps = "map (mapJob h ?out) ?fs @ [appendFooter h ?out]"
  let ?run = "unawaited (writeFile h ?out mapHeader) ?k ?steps ?w3"
  have eq: "mapExportAllCheck h False w = (True, ?run)"
    using leaf
    by (simp add: mapExportAllCheck_def mapAddJobs_eq Let_def totalJobs_def split: prod.split)
  have leaf3: "activeLeaf ?w3 = Some leaf" using leaf by simp
  have land: "disk (snd (writeFile h ?out mapHeader v)) ?out = Some mapHeader"
    "activeLeaf (snd (writeFile h ?out mapHeader v)) = activeLeaf v" for v
    using hdr by (simp_all add: writeFile_def)
  have foot: "fst (appendFooter h ?out v) = None"
    "disk v ?out = Some c \<Longrightarrow> disk (snd (appendFooter h ?out v)) ?out = Some (c @ footer)" for v c
    using ftr by (simp_all add: appendFooter_def appendFile_def)
  show ?thesis
  proof (cases "?k \<le> length ?fs")
    case True
    then have tk: "take ?k ?steps = map (mapJob h ?out) (take ?k ?fs)"
      and dr: "drop ?k ?steps = map (mapJob h ?out) (drop ?k ?fs) @ [appendFooter h ?out]"
      by (simp_all add: take_map drop_map)
    have okt: "\<forall>f \<in> set (take ?k ?fs). openFile_throws h f = None \<and> rendersDiv h f
           \<and> appendFile_throws h ?out (fragment h f) = None"
      using jobs by (meson in_set_takeD)
    have okd: "\<forall>f \<in> set (drop ?k ?fs). openFile_throws h f = None \<and> rendersDiv h f
           \<and> appendFile_throws h ?out (fragment h f) = None"
      using jobs by (meson in_set_dropD)
    obtain r1 w1 where r1: "executeJobs (map (mapJob h ?out) (take ?k ?fs)) ?w3 = (r1, w1)"
      by (cases "executeJobs (map (mapJob h ?out) (take ?k ?fs)) ?w3")
    from executeJobs_map_fulfils [OF leaf3 okt] r1
    have "r1 = None" and al1: "activeLeaf w1 \<noteq> None" by simp_all
    let ?w2 = "snd (writeFile h ?out mapHeader w1)"
    from al1 land(2) [of w1] obtain leaf2 where leaf2: "activeLeaf ?w2 = Some leaf2" by auto
    obtain r4 w4 where r4: "executeJobs (map (mapJob h ?out) (drop ?k ?fs)) ?w2 = (r4, w4)"
      by (cases "executeJobs (map (mapJob h ?out) (drop ?k ?fs)) ?w2")
    from executeJobs_map_ok [OF leaf2 okd land(1) [of w1]] r4
    have "r4 = None"
      and d4: "disk w4 ?out = Some (mapHeader @ concat (map (fragment h) (drop ?k ?fs)))"
      by simp_all
    have "?run = appendFooter h ?out w4"
      unfolding unawaited_def tk dr
      using r1 \<open>r1 = None\<close> r4 \<open>r4 = None\<close>
      by (simp add: executeJobs_append executeJobs_single del: executeJobs.simps)
    then show ?thesis
      using True foot(1) [of w4] foot(2) [OF d4] by (simp add: eq)
  next
    case False
    then have tk: "take ?k ?steps = ?steps" and dr: "drop ?k ?steps = []" by simp_all
    obtain r1 w1 where r1: "executeJobs (map (mapJob h ?out) ?fs) ?w3 = (r1, w1)"
      by (cases "executeJobs (map (mapJob h ?out) ?fs) ?w3")
    from executeJobs_map_fulfils [OF leaf3 jobs] r1 have "r1 = None" by simp
    have "?run = (None, snd (writeFile h ?out mapHeader (snd (appendFooter h ?out w1))))"
      unfolding unawaited_def tk dr
      using r1 \<open>r1 = None\<close> foot(1) [of w1]
      by (cases "appendFooter h ?out w1")
        (simp add: executeJobs_append executeJobs_single del: executeJobs.simps, simp)
    then show ?thesis
      using False land(1) by (simp add: eq)
  qed
qed

text \<open>
  Claim C3 at the input where it breaks. Three notes, every call succeeds, and the
  header, written without \<^verbatim>\<open>await\<close> at line 94, reaches the file after the first job
  has settled. The batch fulfils and every job reports success, yet the destination holds
  the header, the fragments of the second and third note and the footer: the fragment of
  the first note is lost. In a vault without notes the late header leaves the header
  alone and the footer is lost.
\<close>

theorem map_exportall_loses_fragment:
  "headerLandsAfter lateHeaderHost = 1
   \<and> fst (snd (mapExportAllCheck lateHeaderHost False staleWorld)) = None
   \<and> notices (trace (snd (snd (mapExportAllCheck lateHeaderHost False staleWorld)))) =
       [Notice ''Exporting /vault/a.md to map'' None,
        successNotice (mapOutputFile lateHeaderHost (settings staleWorld)),
        Notice ''Exporting /vault/b.md to map'' None,
        successNotice (mapOutputFile lateHeaderHost (settings staleWorld)),
        Notice ''Exporting /vault/c.md to map'' None,
        successNotice (mapOutputFile lateHeaderHost (settings staleWorld))]
   \<and> disk (snd (snd (mapExportAllCheck lateHeaderHost False staleWorld)))
        (mapOutputFile lateHeaderHost (settings staleWorld)) =
       Some (mapHeader @ ''<div>/vault/b.md</div><div>/vault/c.md</div>'' @ footer)
   \<and> headerLandsAfter lateHeaderEmptyHost = 1
   \<and> getMarkdownFiles lateHeaderEmptyHost = []
   \<and> fst (snd (mapExportAllCheck lateHeaderEmptyHost False staleWorld)) = None
   \<and> disk (snd (snd (mapExportAllCheck lateHeaderEmptyHost False staleWorld)))
        (mapOutputFile lateHeaderEmptyHost (settings staleWorld)) = Some mapHeader"
proof -
  have leaf: "activeLeaf staleWorld = Some (MarkdownView noteA)"
    by (simp add: staleWorld_def demoWorld_def)
  have host: "headerLandsAfter lateHeaderHost = 1"
    "getMarkdownFiles lateHeaderHost = [noteA, noteB, noteC]"
    "openFile_throws lateHeaderHost f = None"
    "renderDiv lateHeaderHost v p fmt = Inr (''<div>'' @ p @ ''</div>'')"
    "writeFile_throws lateHeaderHost p d = None"
    "appendFile_throws lateHeaderHost p d = None"
    "getFullPath lateHeaderHost p = ''/vault/'' @ p" for f v p fmt d
    by (simp_all add: lateHeaderHost_def demoHost_def)
  have empty: "headerLandsAfter lateHeaderEmptyHost = 1"
    "getMarkdownFiles lateHeaderEmptyHost = []"
    "writeFile_throws lateHeaderEmptyHost p d = None"
    "appendFile_throws lateHeaderEmptyHost p d = None" for p d
    by (simp_all add: lateHeaderEmptyHost_def emptyVaultHost_def demoHost_def)
  have ok: "\<forall>f \<in> set (getMarkdownFiles lateHeaderHost).
      openFile_throws lateHeaderHost f = None \<and> rendersDiv lateHeaderHost f
      \<and> appendFile_throws lateHeaderHost (mapOutputFile lateHeaderHost (settings staleWorld))
           (fragment lateHeaderHost f) = None"
    by (simp add: host rendersDiv_def)
  have frags: "concat (map (fragment lateHeaderHost) (drop 1 [noteA, noteB, noteC])) =
      ''<div>/vault/b.md</div><div>/vault/c.md</div>''"
    by (simp add: fragment_def host noteB_def noteC_def)
  have late: "fst (snd (mapExportAllCheck lateHeaderHost False staleWorld)) = None
     \<and> disk (snd (snd (mapExportAllCheck lateHeaderHost False staleWorld)))
        (mapOutputFile lateHeaderHost (settings staleWorld)) =
       Some (mapHeader @ ''<div>/vault/b.md</div><div>/vault/c.md</div>'' @ footer)"
    using map_exportall_disk [OF leaf host(5) ok host(6)] frags
    by (simp add: host)
  have none: "fst (snd (mapExportAllCheck lateHeaderEmptyHost False staleWorld)) = None
     \<and> disk (snd (snd (mapExportAllCheck lateHeaderEmptyHost False staleWorld)))
        (mapOutputFile lateHeaderEmptyHost (settings staleWorld)) = Some mapHeader"
    using map_exportall_disk [OF leaf empty(3) _ empty(4)]
    by (simp add: empty)
  have nt: "notices (trace (snd (snd (mapExportAllCheck lateHeaderHost False staleWorld)))) =
       [Notice ''Exporting /vault/a.md to map'' None,
        successNotice (mapOutputFile lateHeaderHost (settings staleWorld)),
        Notice ''Exporting /vault/b.md to map'' None,
        successNotice (mapOutputFile lateHeaderHost (settings staleWorld)),
        Notice ''Exporting /vault/c.md to map'' None,
        successNotice (mapOutputFile lateHeaderHost (settings staleWorld))]"
    using leaf
    by (simp add: mapExportAllCheck_def mapAddJobs_eq unawaited_def host mapJob_def
        startMapExport_def openFile_def getActiveViewOfType_def appendFile_def writeFile_def
        appendFooter_def successNotice_def staleWorld_def demoWorld_def
        noteA_def noteB_def noteC_def Let_def)
  show ?thesis
    using host(1) empty(1,2) late none nt by (simp only: simp_thms)
qed

section \<open>A switch of the leaf that throws\<close>

text \<open>
  Claim C5 at the input where it breaks. \<^verbatim>\<open>openFile\<close> is awaited before the \<^verbatim>\<open>try\<close> block
  of \<^verbatim>\<open>startHtmlExport\<close>. When the leaf cannot be switched to the first of three notes,
  the error leaves the job and the loop of \<^verbatim>\<open>executeJobs\<close>: the promise of the batch
  rejects with it, no failure is notified, and the jobs of the other two notes never
  begin. The same holds for \<^verbatim>\<open>startMapExport\<close>, where in addition the footer is never
  appended: the destination is left with the header alone.
\<close>

theorem switch_failure_aborts_batch:
  "getMarkdownFiles stuckLeafHost = [noteA, noteB, noteC]
   \<and> openFile_throws stuckLeafHost noteA = Some (Thrown ''Error: cannot open'')
   \<and> fst (snd (htmlExportAllCheck stuckLeafHost False demoWorld))
       = Some (Thrown ''Error: cannot open'')
   \<and> trace (snd (snd (htmlExportAllCheck stuckLeafHost False demoWorld))) =
       [ConsoleLog ''added job to export /vault/a.md'',
        ConsoleLog ''added job to export /vault/b.md'',
        ConsoleLog ''added job to export /vault/c.md'',
        ConsoleLog ''total number of jobs: 3'',
        Notice ''Exporting /vault/a.md to html'' None,
        ConsoleLog ''exporting: /vault/a.md'']
   \<and> fst (snd (mapExportAllCheck stuckLeafHost False demoWorld))
       = Some (Thrown ''Error: cannot open'')
   \<and> disk (snd (snd (mapExportAllCheck stuckLeafHost False demoWorld)))
        (mapOutputFile stuckLeafHost (settings demoWorld)) = Some mapHeader"
proof -
  have leaf: "activeLeaf demoWorld = Some (MarkdownView noteA)"
    by (simp add: demoWorld_def)
  have files: "getMarkdownFiles stuckLeafHost = [noteA, noteB, noteC]"
    and stuck: "openFile_throws stuckLeafHost noteA = Some (Thrown ''Error: cannot open'')"
    by (simp_all add: stuckLeafHost_def demoHost_def)
  have st: "settings demoWorld = defaultSettings" "trace demoWorld = []"
    by (simp_all add: demoWorld_def)
  have three: "string_of_nat 3 = ''3''" by code_simp
  have logs: "map (addedJob stuckLeafHost) [noteA, noteB, noteC] =
       [ConsoleLog ''added job to export /vault/a.md'',
        ConsoleLog ''added job to export /vault/b.md'',
        ConsoleLog ''added job to export /vault/c.md'']"
    "totalJobs (length [noteA, noteB, noteC]) = ConsoleLog ''total number of jobs: 3''"
    using three
    by (simp_all add: addedJob_def totalJobs_def stuckLeafHost_def demoHost_def
        noteA_def noteB_def noteC_def eval_nat_numeral)
  have ev: "htmlJobEvents stuckLeafHost defaultSettings noteA =
      [Notice ''Exporting /vault/a.md to html'' None, ConsoleLog ''exporting: /vault/a.md'']"
    using stuck
    by (simp add: htmlJobEvents_def exportingNotice_def Let_def, simp add: stuckLeafHost_def demoHost_def noteA_def)
  have sta: "started stuckLeafHost [noteA, noteB, noteC] = [noteA]"
    and rej: "firstRejection stuckLeafHost [noteA, noteB, noteC] = Some (Thrown ''Error: cannot open'')"
    using stuck by simp_all
  have html: "getMarkdownFiles stuckLeafHost = [noteA, noteB, noteC]
       \<and> openFile_throws stuckLeafHost noteA = Some (Thrown ''Error: cannot open'')
       \<and> fst (snd (htmlExportAllCheck stuckLeafHost False demoWorld))
           = Some (Thrown ''Error: cannot open'')
       \<and> trace (snd (snd (htmlExportAllCheck stuckLeafHost False demoWorld))) =
           [ConsoleLog ''added job to export /vault/a.md'',
            ConsoleLog ''added job to export /vault/b.md'',
            ConsoleLog ''added job to export /vault/c.md'',
            ConsoleLog ''total number of jobs: 3'',
            Notice ''Exporting /vault/a.md to html'' None,
            ConsoleLog ''exporting: /vault/a.md'']"
    using htmlExportAllCheck_run [OF leaf, of stuckLeafHost] stuck
    unfolding files st sta rej logs by (simp add: ev)
  have wr: "writeFile_throws stuckLeafHost p d = None" for p d
    by (simp add: stuckLeafHost_def demoHost_def)
  have hl: "headerLandsAfter stuckLeafHost = 0"
    by (simp add: stuckLeafHost_def demoHost_def)
  have job: "mapJob stuckLeafHost out noteA w = (Some (Thrown ''Error: cannot open''),
      emit (ConsoleLog (''Map exporting: '' @ getFullPath stuckLeafHost (file_path noteA)))
       (emit (Notice (''Exporting '' @ getFullPath stuckLeafHost (file_path noteA) @ '' to map'') None) w))"
    if "activeLeaf w = Some l" for w out l
    using that stuck by (simp add: mapJob_def startMapExport_def openFile_def Let_def)
  have mapped: "fst (snd (mapExportAllCheck stuckLeafHost False demoWorld))
           = Some (Thrown ''Error: cannot open'')
       \<and> disk (snd (snd (mapExportAllCheck stuckLeafHost False demoWorld)))
            (mapOutputFile stuckLeafHost (settings demoWorld)) = Some mapHeader"
    using leaf
    by (simp add: mapExportAllCheck_def mapAddJobs_eq unawaited_def files wr hl writeFile_def
        Let_def job [of _ "MarkdownView noteA"])
  show ?thesis
    using html mapped by (simp only: simp_thms)
qed

text \<open>
  Claim C1 at the input where it breaks. Three notes, and the leaf cannot be switched to
  the second. Three jobs are created. The first runs whole: its file is written and its
  success reported before the second begins. The second begins and the error of the
  switch leaves it: its write is neither done nor reported failed. The third job never
  begins, and the promise of the batch rejects. Only the file of the first note is on
  disk.
\<close>

theorem html_exportall_leaves_jobs_unrun:
  "length (fst (htmlAddJobs stuckSecondHost (getMarkdownFiles stuckSecondHost) ([], demoWorld))) = 3
   \<and> openFile_throws stuckSecondHost noteB = Some (Thrown ''Error: cannot open'')
   \<and> htmlExportAllCheck stuckSecondHost False demoWorld =
       (True, Some (Thrown ''Error: cannot open''),
        demoWorld
          \<lparr>disk := [''html/a.html'' \<mapsto> ''<html>/vault/a.md</html>''],
           trace :=
             [ConsoleLog ''added job to export /vault/a.md'',
              ConsoleLog ''added job to export /vault/b.md'',
              ConsoleLog ''added job to export /vault/c.md'',
              ConsoleLog ''total number of jobs: 3'',
              Notice ''Exporting /vault/a.md to html'' None,
              ConsoleLog ''exporting: /vault/a.md'',
              OpenedFile noteA,
              WroteFile ''html/a.html'' ''<html>/vault/a.md</html>'',
              ConsoleLog ''Successfully exported: /vault/a.md'',
              Notice ''Successfully exported via Pandoc to html/a.html'' None,
              Notice ''Exporting /vault/b.md to html'' None,
              ConsoleLog ''exporting: /vault/b.md'']\<rparr>)"
proof -
  have host: "getMarkdownFiles stuckSecondHost = [noteA, noteB, noteC]"
    "openFile_throws stuckSecondHost (TFile ''a.md'') = None"
    "openFile_throws stuckSecondHost (TFile ''b.md'') = Some (Thrown ''Error: cannot open'')"
    "render stuckSecondHost v p fmt = Inr (''<html>'' @ p @ ''</html>'')"
    "writeFile_throws stuckSecondHost p d = None"
    "getFullPath stuckSecondHost p = ''/vault/'' @ p" for v p fmt d
    by (simp_all add: stuckSecondHost_def demoHost_def noteB_def)
  have stuck: "openFile_throws stuckSecondHost noteB = Some (Thrown ''Error: cannot open'')"
    by (simp add: host noteB_def)
  have out: "htmlOutputFile defaultSettings ''/vault/a.md'' = ''html/a.html''"
    by (simp add: htmlOutputFile_def defaultSettings_def replaceFileExtension_def
        basename_def path_join_def normalize_def slash_def Let_def)
  have "string_of_nat 3 = ''3''" by code_simp
  then have three: "string_of_nat (Suc (Suc (Suc 0))) = ''3''"
    by (simp add: eval_nat_numeral)
  have made: "length (fst (htmlAddJobs stuckSecondHost (getMarkdownFiles stuckSecondHost)
                  ([], demoWorld))) = 3"
    by (simp add: htmlAddJobs_eq host)
  have run: "htmlExportAllCheck stuckSecondHost False demoWorld =
       (True, Some (Thrown ''Error: cannot open''),
        demoWorld
          \<lparr>disk := [''html/a.html'' \<mapsto> ''<html>/vault/a.md</html>''],
           trace :=
             [ConsoleLog ''added job to export /vault/a.md'',
              ConsoleLog ''added job to export /vault/b.md'',
              ConsoleLog ''added job to export /vault/c.md'',
              ConsoleLog ''total number of jobs: 3'',
              Notice ''Exporting /vault/a.md to html'' None,
              ConsoleLog ''exporting: /vault/a.md'',
              OpenedFile noteA,
              WroteFile ''html/a.html'' ''<html>/vault/a.md</html>'',
              ConsoleLog ''Successfully exported: /vault/a.md'',
              Notice ''Successfully exported via Pandoc to html/a.html'' None,
              Notice ''Exporting /vault/b.md to html'' None,
              ConsoleLog ''exporting: /vault/b.md'']\<rparr>)"
    by (simp add: htmlExportAllCheck_def htmlAddJobs_eq host htmlJob_def startHtmlExport_def
        openFile_def getActiveViewOfType_def writeFile_def addedJob_def emit_def
        demoWorld_def out three noteA_def noteB_def noteC_def Let_def)
  show ?thesis
    using made stuck run by (simp only: simp_thms)
qed

text \<open>
  Claim C2 at the input where it breaks. The renderer refuses the first of three notes
  and the leaf cannot be switched to the second. The failure of the renderer is caught:
  one notice with its description, and the second job begins. The error of the switch
  then ends the batch: the second job shows no outcome and the third job, which follows
  the failed one, never runs. The run shows 3 notifications for 3 notes.
\<close>

theorem html_exportall_misses_notices:
  "length (getMarkdownFiles mixedHost) = 3
   \<and> render mixedHost (Some (MarkdownView noteA)) ''/vault/a.md'' ''html''
        = Inl (Thrown ''Error: bad note'')
   \<and> openFile_throws mixedHost noteB = Some (Thrown ''Error: cannot open'')
   \<and> fst (snd (htmlExportAllCheck mixedHost False demoWorld))
        = Some (Thrown ''Error: cannot open'')
   \<and> trace (snd (snd (htmlExportAllCheck mixedHost False demoWorld))) =
       [ConsoleLog ''added job to export /vault/a.md'',
        ConsoleLog ''added job to export /vault/b.md'',
        ConsoleLog ''added job to export /vault/c.md'',
        ConsoleLog ''total number of jobs: 3'',
        Notice ''Exporting /vault/a.md to html'' None,
        ConsoleLog ''exporting: /vault/a.md'',
        OpenedFile noteA,
        Notice ''Pandoc export failed: Error: bad note'' (Some 15000),
        ConsoleError (Thrown ''Error: bad note''),
        Notice ''Exporting /vault/b.md to html'' None,
        ConsoleLog ''exporting: /vault/b.md'']
   \<and> notices (trace (snd (snd (htmlExportAllCheck mixedHost False demoWorld)))) =
       [Notice ''Exporting /vault/a.md to html'' None,
        Notice ''Pandoc export failed: Error: bad note'' (Some 15000),
        Notice ''Exporting /vault/b.md to html'' None]"
proof -
  have host: "getMarkdownFiles mixedHost = [noteA, noteB, noteC]"
    "openFile_throws mixedHost (TFile ''a.md'') = None"
    "openFile_throws mixedHost (TFile ''b.md'') = Some (Thrown ''Error: cannot open'')"
    "render mixedHost v ''/vault/a.md'' fmt = Inl (Thrown ''Error: bad note'')"
    "getFullPath mixedHost p = ''/vault/'' @ p" for v p fmt
    by (simp_all add: mixedHost_def stuckSecondHost_def demoHost_def noteB_def)
  have stuck: "openFile_throws mixedHost noteB = Some (Thrown ''Error: cannot open'')"
    by (simp add: host noteB_def)
  have "string_of_nat 3 = ''3''" by code_simp
  then have three: "string_of_nat (Suc (Suc (Suc 0))) = ''3''"
    by (simp add: eval_nat_numeral)
  have run: "htmlExportAllCheck mixedHost False demoWorld =
       (True, Some (Thrown ''Error: cannot open''),
        demoWorld
          \<lparr>trace :=
             [ConsoleLog ''added job to export /vault/a.md'',
              ConsoleLog ''added job to export /vault/b.md'',
              ConsoleLog ''added job to export /vault/c.md'',
              ConsoleLog ''total number of jobs: 3'',
              Notice ''Exporting /vault/a.md to html'' None,
              ConsoleLog ''exporting: /vault/a.md'',
              OpenedFile noteA,
              Notice ''Pandoc export failed: Error: bad note'' (Some 15000),
              ConsoleError (Thrown ''Error: bad note''),
              Notice ''Exporting /vault/b.md to html'' None,
              ConsoleLog ''exporting: /vault/b.md'']\<rparr>)"
    by (simp add: htmlExportAllCheck_def htmlAddJobs_eq host htmlJob_def startHtmlExport_def
        openFile_def getActiveViewOfType_def exportFailed_def addedJob_def emit_def
        demoWorld_def three noteA_def noteB_def noteC_def Let_def)
  show ?thesis
    using stuck by (simp add: run host)
qed

end
